theory Spec2Isabelle
  imports Main "HOL-Library.Word" "HOL-Library.AList" "HOL-Library.Sublist"
begin

section \<open>Python values and exceptions\<close>

text \<open>
  The module \<^verbatim>\<open>rocketchat_async/methods.py\<close> builds and takes apart JSON-shaped Python
  values. A value is \<open>None\<close>, a bool, an int (unbounded), a float (its IEEE binary64
  bit pattern), a str (one \<open>char\<close> per code point), a list, or a dict with str keys.
  A dict is an association list in insertion order, as Python keeps it.
\<close>

datatype json =
    JNull
  | JBool bool
  | JInt int
  | JFloat "64 word"
  | JStr string
  | JList "json list"
  | JDict "(string \<times> json) list"

text \<open>The exceptions the module can raise, and whatever the dispatcher or a callback raises.\<close>

datatype py_error =
    KeyError
  | IndexError
  | TypeError
  | AttributeError
  | ExternalError string

text \<open>\<^verbatim>\<open>obj[key]\<close> for a str key: only a dict accepts it.\<close>

fun getitem_key :: "json \<Rightarrow> string \<Rightarrow> py_error + json" where
  "getitem_key (JDict kvs) k = (case map_of kvs k of None \<Rightarrow> Inl KeyError | Some v \<Rightarrow> Inr v)"
| "getitem_key JNull k = Inl TypeError"
| "getitem_key (JBool b) k = Inl TypeError"
| "getitem_key (JInt i) k = Inl TypeError"
| "getitem_key (JFloat f) k = Inl TypeError"
| "getitem_key (JStr s) k = Inl TypeError"
| "getitem_key (JList xs) k = Inl TypeError"

text \<open>
  \<^verbatim>\<open>obj[i]\<close> for a literal index \<open>i \<ge> 0\<close>: a list and a str are indexed (a str gives
  the one-character str), a dict with str keys has no int key, anything else is not
  subscriptable.
\<close>

fun getitem_idx :: "json \<Rightarrow> nat \<Rightarrow> py_error + json" where
  "getitem_idx (JList xs) i = (if i < length xs then Inr (xs ! i) else Inl IndexError)"
| "getitem_idx (JStr s) i = (if i < length s then Inr (JStr [s ! i]) else Inl IndexError)"
| "getitem_idx (JDict kvs) i = Inl KeyError"
| "getitem_idx JNull i = Inl TypeError"
| "getitem_idx (JBool b) i = Inl TypeError"
| "getitem_idx (JInt n) i = Inl TypeError"
| "getitem_idx (JFloat f) i = Inl TypeError"

text \<open>\<^verbatim>\<open>for r in obj\<close>: a list gives its elements, a dict its keys, a str its characters.\<close>

fun iterate :: "json \<Rightarrow> py_error + json list" where
  "iterate (JList xs) = Inr xs"
| "iterate (JDict kvs) = Inr (map (\<lambda>kv. JStr (fst kv)) kvs)"
| "iterate (JStr s) = Inr (map (\<lambda>c. JStr [c]) s)"
| "iterate JNull = Inl TypeError"
| "iterate (JBool b) = Inl TypeError"
| "iterate (JInt n) = Inl TypeError"
| "iterate (JFloat f) = Inl TypeError"

text \<open>\<^verbatim>\<open>obj.encode()\<close>: only a str has the method.\<close>

fun encode :: "json \<Rightarrow> py_error + string" where
  "encode (JStr s) = Inr s"
| "encode JNull = Inl AttributeError"
| "encode (JBool b) = Inl AttributeError"
| "encode (JInt n) = Inl AttributeError"
| "encode (JFloat f) = Inl AttributeError"
| "encode (JList xs) = Inl AttributeError"
| "encode (JDict kvs) = Inl AttributeError"

subsection \<open>Formatting an int\<close>

text \<open>\<^verbatim>\<open>f'{n}'\<close> for an int: its decimal digits, most significant first, after a minus sign
  when negative.\<close>

definition digit_char :: "nat \<Rightarrow> char" where
  "digit_char d = ''0123456789'' ! d"

fun str_nat :: "nat \<Rightarrow> string" where
  "str_nat n = (if n < 10 then [digit_char n] else str_nat (n div 10) @ [digit_char (n mod 10)])"

definition str_int :: "int \<Rightarrow> string" where
  "str_int i = (if i < 0 then CHR ''-'' # str_nat (nat (- i)) else str_nat (nat i))"

text \<open>Reading a decimal numeral back: the inverse of \<open>str_nat\<close>, used to tell ids apart.\<close>

definition digits_value :: "string \<Rightarrow> nat" where
  "digits_value s = foldl (\<lambda>a c. 10 * a + (of_char c - 48)) 0 s"

subsection \<open>The libraries the module calls\<close>

text \<open>
  \<^verbatim>\<open>hashlib\<close> and \<^verbatim>\<open>time\<close> are not code of this module; the model takes what they
  compute as parameters:
  \<^item> \<open>sha256_encoded s\<close> is the 32-byte digest \<^verbatim>\<open>hashlib.sha256(s.encode()).digest()\<close>,
  \<^item> \<open>md5_encoded s\<close> is the 16-byte digest \<^verbatim>\<open>hashlib.md5(s.encode()).digest()\<close>,
  \<^item> \<open>float_str t\<close> is \<^verbatim>\<open>f'{t}'\<close> for the float with bit pattern \<open>t\<close>.
  A digest is a word whose most significant byte is the digest's first byte.
\<close>

record library =
  sha256_encoded :: "string \<Rightarrow> 256 word"
  md5_encoded :: "string \<Rightarrow> 128 word"
  float_str :: "64 word \<Rightarrow> string"

text \<open>\<^verbatim>\<open>.hexdigest()\<close>: two lowercase hexadecimal characters per byte, first byte first.\<close>

definition hex_char :: "nat \<Rightarrow> char" where
  "hex_char d = ''0123456789abcdef'' ! d"

definition hexdigest :: "'a::len word \<Rightarrow> string" where
  "hexdigest w =
     map (\<lambda>i. hex_char (unat (take_bit 4 (drop_bit (4 * i) w)))) (rev [0..<LENGTH('a) div 4])"

section \<open>The correlation id allocator\<close>

text \<open>
  The class attribute \<^verbatim>\<open>RealtimeRequest._max_id\<close> is the module's only state; everything
  else an operation touches (the dispatcher, the callbacks) is the world \<open>'w\<close>.
\<close>

record 'w process =
  max_id :: int
  world :: 'w

definition initial :: "'w \<Rightarrow> 'w process" where
  "initial w = \<lparr>max_id = 0, world = w\<rparr>"

definition get_new_id :: "'w process \<Rightarrow> string \<times> 'w process" where
  "get_new_id p = (let p' = p\<lparr>max_id := max_id p + 1\<rparr> in (str_int (max_id p'), p'))"

text \<open>
  Consecutive allocations, with anything the operations and the dispatcher do to the
  world between two of them: one world step per allocation.
\<close>

fun allocations :: "('w \<Rightarrow> 'w) list \<Rightarrow> 'w process \<Rightarrow> string list \<times> 'w process" where
  "allocations [] p = ([], p)"
| "allocations (f # fs) p =
     (case get_new_id p of (i, p') \<Rightarrow>
        (case allocations fs (p'\<lparr>world := f (world p')\<rparr>) of (ids, p'') \<Rightarrow> (i # ids, p'')))"

section \<open>The dispatcher\<close>

text \<open>
  The dispatcher is the caller's object. \<^verbatim>\<open>call_method(msg, id)\<close> returns the raw
  response or raises; the id is optional. \<^verbatim>\<open>create_subscription(msg, id, fn)\<close> registers
  the adapter \<open>fn\<close>. Both act on the world.
\<close>

type_synonym ('w, 'r) adapter = "json \<Rightarrow> 'w \<Rightarrow> (py_error + 'r option) \<times> 'w"

record ('w, 'r) dispatcher =
  call_method :: "json \<Rightarrow> string option \<Rightarrow> 'w \<Rightarrow> (py_error + json) \<times> 'w"
  create_subscription :: "json \<Rightarrow> string \<Rightarrow> ('w, 'r) adapter \<Rightarrow> 'w \<Rightarrow> (py_error + unit) \<times> 'w"

text \<open>\<^verbatim>\<open>await dispatcher.call_method(msg, id)\<close> inside an operation: the world moves on.\<close>

definition await_call_method ::
  "('w, 'r) dispatcher \<Rightarrow> json \<Rightarrow> string option \<Rightarrow> 'w process \<Rightarrow> (py_error + json) \<times> 'w process" where
  "await_call_method d msg i p =
     (case call_method d msg i (world p) of (r, w) \<Rightarrow> (r, p\<lparr>world := w\<rparr>))"

definition await_create_subscription ::
  "('w, 'r) dispatcher \<Rightarrow> json \<Rightarrow> string \<Rightarrow> ('w, 'r) adapter \<Rightarrow> 'w process \<Rightarrow> (py_error + unit) \<times> 'w process" where
  "await_create_subscription d msg i fn p =
     (case create_subscription d msg i fn (world p) of (r, w) \<Rightarrow> (r, p\<lparr>world := w\<rparr>))"

section \<open>The operations\<close>

subsection \<open>Connect\<close>

definition Connect_REQUEST_MSG :: json where
  "Connect_REQUEST_MSG =
     JDict [(''msg'', JStr ''connect''), (''version'', JStr ''1''), (''support'', JList [JStr ''1''])]"

definition Connect_call :: "('w, 'r) dispatcher \<Rightarrow> 'w process \<Rightarrow> (py_error + unit) \<times> 'w process" where
  "Connect_call d p =
     (case await_call_method d Connect_REQUEST_MSG None p of
        (Inl e, p1) \<Rightarrow> (Inl e, p1)
      | (Inr response, p1) \<Rightarrow> (Inr (), p1))"

subsection \<open>Login\<close>

definition Login_get_request_msg :: "library \<Rightarrow> string \<Rightarrow> json list \<Rightarrow> py_error + json" where
  "Login_get_request_msg lib msg_id args =
     (let msg = [(''msg'', JStr ''method''), (''method'', JStr ''login''), (''id'', JStr msg_id)] in
      if length args = 1 then
        (case getitem_idx (JList args) 0 of
           Inl e \<Rightarrow> Inl e
         | Inr a0 \<Rightarrow> Inr (JDict (AList.update ''params'' (JList [JDict [(''resume'', a0)]]) msg)))
      else
        (case getitem_idx (JList args) 1 of
           Inl e \<Rightarrow> Inl e
         | Inr a1 \<Rightarrow>
            (case encode a1 of
               Inl e \<Rightarrow> Inl e
             | Inr pwd \<Rightarrow>
                (let pwd_digest = hexdigest (sha256_encoded lib pwd) in
                 case getitem_idx (JList args) 0 of
                   Inl e \<Rightarrow> Inl e
                 | Inr a0 \<Rightarrow>
                    Inr (JDict (AList.update ''params''
                      (JList [JDict [(''user'', JDict [(''username'', a0)]),
                                     (''password'', JDict [(''digest'', JStr pwd_digest),
                                                           (''algorithm'', JStr ''sha-256'')])]])
                      msg))))))"

definition Login_parse :: "json \<Rightarrow> py_error + json" where
  "Login_parse response =
     (case getitem_key response ''result'' of
        Inl e \<Rightarrow> Inl e
      | Inr result \<Rightarrow> getitem_key result ''id'')"

definition Login_call ::
  "library \<Rightarrow> ('w, 'r) dispatcher \<Rightarrow> json list \<Rightarrow> 'w process \<Rightarrow> (py_error + json) \<times> 'w process" where
  "Login_call lib d args p =
     (case get_new_id p of (msg_id, p1) \<Rightarrow>
        (case Login_get_request_msg lib msg_id args of
           Inl e \<Rightarrow> (Inl e, p1)
         | Inr msg \<Rightarrow>
            (case await_call_method d msg (Some msg_id) p1 of
               (Inl e, p2) \<Rightarrow> (Inl e, p2)
             | (Inr response, p2) \<Rightarrow> (Login_parse response, p2))))"

subsection \<open>GetChannels\<close>

definition GetChannels_get_request_msg :: "string \<Rightarrow> json" where
  "GetChannels_get_request_msg msg_id =
     JDict [(''msg'', JStr ''method''), (''method'', JStr ''rooms/get''), (''id'', JStr msg_id),
            (''params'', JList [])]"

text \<open>The comprehension stops at the first record that fails, \<^verbatim>\<open>r['_id']\<close> before \<^verbatim>\<open>r['t']\<close>.\<close>

fun channel_pairs :: "json list \<Rightarrow> py_error + (json \<times> json) list" where
  "channel_pairs [] = Inr []"
| "channel_pairs (r # rs) =
     (case getitem_key r ''_id'' of
        Inl e \<Rightarrow> Inl e
      | Inr i \<Rightarrow>
         (case getitem_key r ''t'' of
            Inl e \<Rightarrow> Inl e
          | Inr t \<Rightarrow>
             (case channel_pairs rs of
                Inl e \<Rightarrow> Inl e
              | Inr ps \<Rightarrow> Inr ((i, t) # ps))))"

definition GetChannels_parse :: "json \<Rightarrow> py_error + (json \<times> json) list" where
  "GetChannels_parse response =
     (case getitem_key response ''result'' of
        Inl e \<Rightarrow> Inl e
      | Inr result \<Rightarrow>
         (case iterate result of
            Inl e \<Rightarrow> Inl e
          | Inr rs \<Rightarrow> channel_pairs rs))"

definition GetChannels_call ::
  "('w, 'r) dispatcher \<Rightarrow> 'w process \<Rightarrow> (py_error + (json \<times> json) list) \<times> 'w process" where
  "GetChannels_call d p =
     (case get_new_id p of (msg_id, p1) \<Rightarrow>
        (case await_call_method d (GetChannels_get_request_msg msg_id) (Some msg_id) p1 of
           (Inl e, p2) \<Rightarrow> (Inl e, p2)
         | (Inr response, p2) \<Rightarrow> (GetChannels_parse response, p2)))"

subsection \<open>SendMessage\<close>

text \<open>
  \<open>now\<close> is what \<^verbatim>\<open>time.time()\<close> returns during the call. \<open>kwargs\<close> is the dict of
  extra fields, in insertion order; \<^verbatim>\<open>d[key] = value\<close> replaces the value of a key the
  dict has, in place, and appends a new key.
\<close>

definition SendMessage_get_request_msg ::
  "library \<Rightarrow> 64 word \<Rightarrow> string \<Rightarrow> json \<Rightarrow> json \<Rightarrow> (string \<times> json) list \<Rightarrow> json" where
  "SendMessage_get_request_msg lib now msg_id channel_id msg_text kwargs =
     (let id_seed = msg_id @ '':'' @ float_str lib now;
          params0 = [(''_id'', JStr (take 12 (hexdigest (md5_encoded lib id_seed)))),
                     (''rid'', channel_id),
                     (''msg'', msg_text)]
      in JDict [(''msg'', JStr ''method''), (''method'', JStr ''sendMessage''), (''id'', JStr msg_id),
                (''params'', JList [JDict (fold (\<lambda>kv. AList.update (fst kv) (snd kv)) kwargs params0)])])"

definition SendMessage_call ::
  "library \<Rightarrow> 64 word \<Rightarrow> ('w, 'r) dispatcher \<Rightarrow> json \<Rightarrow> json \<Rightarrow> (string \<times> json) list \<Rightarrow> 'w process
     \<Rightarrow> (py_error + unit) \<times> 'w process" where
  "SendMessage_call lib now d msg_text channel_id kwargs p =
     (case get_new_id p of (msg_id, p1) \<Rightarrow>
        (case await_call_method d
                (SendMessage_get_request_msg lib now msg_id channel_id msg_text kwargs) (Some msg_id) p1 of
           (Inl e, p2) \<Rightarrow> (Inl e, p2)
         | (Inr response, p2) \<Rightarrow> (Inr (), p2)))"

subsection \<open>SendReaction\<close>

definition SendReaction_get_request_msg :: "string \<Rightarrow> json \<Rightarrow> json \<Rightarrow> json" where
  "SendReaction_get_request_msg msg_id orig_msg_id emoji =
     JDict [(''msg'', JStr ''method''), (''method'', JStr ''setReaction''), (''id'', JStr msg_id),
            (''params'', JList [emoji, orig_msg_id])]"

definition SendReaction_call ::
  "('w, 'r) dispatcher \<Rightarrow> json \<Rightarrow> json \<Rightarrow> 'w process \<Rightarrow> (py_error + unit) \<times> 'w process" where
  "SendReaction_call d orig_msg_id emoji p =
     (case get_new_id p of (msg_id, p1) \<Rightarrow>
        (case await_call_method d (SendReaction_get_request_msg msg_id orig_msg_id emoji) None p1 of
           (Inl e, p2) \<Rightarrow> (Inl e, p2)
         | (Inr response, p2) \<Rightarrow> (Inr (), p2)))"

subsection \<open>SendTypingEvent\<close>

text \<open>\<^verbatim>\<open>f'{channel_id}/typing'\<close>: the channel id is a str.\<close>

definition SendTypingEvent_get_request_msg :: "string \<Rightarrow> string \<Rightarrow> json \<Rightarrow> json \<Rightarrow> json" where
  "SendTypingEvent_get_request_msg msg_id channel_id username is_typing =
     JDict [(''msg'', JStr ''method''), (''method'', JStr ''stream-notify-room''), (''id'', JStr msg_id),
            (''params'', JList [JStr (channel_id @ ''/typing''), username, is_typing])]"

definition SendTypingEvent_call ::
  "('w, 'r) dispatcher \<Rightarrow> string \<Rightarrow> json \<Rightarrow> json \<Rightarrow> 'w process \<Rightarrow> (py_error + unit) \<times> 'w process" where
  "SendTypingEvent_call d channel_id username is_typing p =
     (case get_new_id p of (msg_id, p1) \<Rightarrow>
        (case await_call_method d
                (SendTypingEvent_get_request_msg msg_id channel_id username is_typing) (Some msg_id) p1 of
           (Inl e, p2) \<Rightarrow> (Inl e, p2)
         | (Inr response, p2) \<Rightarrow> (Inr (), p2)))"

subsection \<open>SubscribeToChannelMessages\<close>

definition SubscribeToChannelMessages_get_request_msg :: "string \<Rightarrow> json \<Rightarrow> json" where
  "SubscribeToChannelMessages_get_request_msg msg_id channel_id =
     JDict [(''msg'', JStr ''sub''), (''id'', JStr msg_id), (''name'', JStr ''stream-room-messages''),
            (''params'', JList [channel_id,
                                JDict [(''useCollection'', JBool False), (''args'', JList [])]])]"

text \<open>
  A callback is the caller's function: it acts on the world and returns or raises.
  The adapter \<open>fn\<close> returns what the callback returns.
\<close>

definition SubscribeToChannelMessages_wrap ::
  "(json \<Rightarrow> json \<Rightarrow> json \<Rightarrow> json \<Rightarrow> 'w \<Rightarrow> (py_error + 'r) \<times> 'w) \<Rightarrow> ('w, 'r) adapter" where
  "SubscribeToChannelMessages_wrap callback msg w =
     (case getitem_key msg ''fields'' of
        Inl e \<Rightarrow> (Inl e, w)
      | Inr event_fields \<Rightarrow>
     (case getitem_key event_fields ''args'' of
        Inl e \<Rightarrow> (Inl e, w)
      | Inr args \<Rightarrow>
     (case getitem_idx args 0 of
        Inl e \<Rightarrow> (Inl e, w)
      | Inr message \<Rightarrow>
     (case getitem_key message ''_id'' of
        Inl e \<Rightarrow> (Inl e, w)
      | Inr msg_id \<Rightarrow>
     (case getitem_key message ''rid'' of
        Inl e \<Rightarrow> (Inl e, w)
      | Inr channel_id \<Rightarrow>
     (case getitem_key message ''u'' of
        Inl e \<Rightarrow> (Inl e, w)
      | Inr u \<Rightarrow>
     (case getitem_key u ''_id'' of
        Inl e \<Rightarrow> (Inl e, w)
      | Inr sender_id \<Rightarrow>
     (case callback channel_id sender_id msg_id message w of
        (Inl e, w') \<Rightarrow> (Inl e, w')
      | (Inr r, w') \<Rightarrow> (Inr (Some r), w')))))))))"

definition SubscribeToChannelMessages_call ::
  "('w, 'r) dispatcher \<Rightarrow> json \<Rightarrow> (json \<Rightarrow> json \<Rightarrow> json \<Rightarrow> json \<Rightarrow> 'w \<Rightarrow> (py_error + 'r) \<times> 'w)
     \<Rightarrow> 'w process \<Rightarrow> (py_error + string) \<times> 'w process" where
  "SubscribeToChannelMessages_call d channel_id callback p =
     (case get_new_id p of (msg_id, p1) \<Rightarrow>
        (case await_create_subscription d (SubscribeToChannelMessages_get_request_msg msg_id channel_id)
                msg_id (SubscribeToChannelMessages_wrap callback) p1 of
           (Inl e, p2) \<Rightarrow> (Inl e, p2)
         | (Inr u, p2) \<Rightarrow> (Inr msg_id, p2)))"

subsection \<open>SubscribeToChannelChanges\<close>

definition SubscribeToChannelChanges_get_request_msg :: "string \<Rightarrow> string \<Rightarrow> json" where
  "SubscribeToChannelChanges_get_request_msg msg_id user_id =
     JDict [(''msg'', JStr ''sub''), (''id'', JStr msg_id), (''name'', JStr ''stream-notify-user''),
            (''params'', JList [JStr (user_id @ ''/rooms-changed''), JBool False])]"

definition SubscribeToChannelChanges_wrap ::
  "(json \<Rightarrow> json \<Rightarrow> 'w \<Rightarrow> (py_error + 'r) \<times> 'w) \<Rightarrow> ('w, 'r) adapter" where
  "SubscribeToChannelChanges_wrap callback msg w =
     (case getitem_key msg ''fields'' of
        Inl e \<Rightarrow> (Inl e, w)
      | Inr event_fields \<Rightarrow>
     (case getitem_key event_fields ''args'' of
        Inl e \<Rightarrow> (Inl e, w)
      | Inr payload \<Rightarrow>
     (case getitem_idx payload 0 of
        Inl e \<Rightarrow> (Inl e, w)
      | Inr p0 \<Rightarrow>
         if p0 = JStr ''removed'' then (Inr None, w)
         else
     (case getitem_idx payload 1 of
        Inl e \<Rightarrow> (Inl e, w)
      | Inr p1 \<Rightarrow>
     (case getitem_key p1 ''_id'' of
        Inl e \<Rightarrow> (Inl e, w)
      | Inr channel_id \<Rightarrow>
     (case getitem_idx payload 1 of
        Inl e \<Rightarrow> (Inl e, w)
      | Inr p1' \<Rightarrow>
     (case getitem_key p1' ''t'' of
        Inl e \<Rightarrow> (Inl e, w)
      | Inr channel_type \<Rightarrow>
     (case callback channel_id channel_type w of
        (Inl e, w') \<Rightarrow> (Inl e, w')
      | (Inr r, w') \<Rightarrow> (Inr (Some r), w')))))))))"

definition SubscribeToChannelChanges_call ::
  "('w, 'r) dispatcher \<Rightarrow> string \<Rightarrow> (json \<Rightarrow> json \<Rightarrow> 'w \<Rightarrow> (py_error + 'r) \<times> 'w)
     \<Rightarrow> 'w process \<Rightarrow> (py_error + string) \<times> 'w process" where
  "SubscribeToChannelChanges_call d user_id callback p =
     (case get_new_id p of (msg_id, p1) \<Rightarrow>
        (case await_create_subscription d (SubscribeToChannelChanges_get_request_msg msg_id user_id)
                msg_id (SubscribeToChannelChanges_wrap callback) p1 of
           (Inl e, p2) \<Rightarrow> (Inl e, p2)
         | (Inr u, p2) \<Rightarrow> (Inr msg_id, p2)))"

subsection \<open>Unsubscribe\<close>

definition Unsubscribe_get_request_msg :: "string \<Rightarrow> json" where
  "Unsubscribe_get_request_msg subscription_id = JDict [(''msg'', JStr ''unsub''), (''id'', JStr subscription_id)]"

definition Unsubscribe_call ::
  "('w, 'r) dispatcher \<Rightarrow> string \<Rightarrow> 'w process \<Rightarrow> (py_error + unit) \<times> 'w process" where
  "Unsubscribe_call d subscription_id p =
     (case await_call_method d (Unsubscribe_get_request_msg subscription_id) None p of
        (Inl e, p1) \<Rightarrow> (Inl e, p1)
      | (Inr response, p1) \<Rightarrow> (Inr (), p1))"

section \<open>Observations the properties are stated with\<close>

text \<open>
  The spec's words for the Login response: the value of its \<^verbatim>\<open>result.id\<close> field, when the
  response is an object whose \<^verbatim>\<open>result\<close> is an object that has an \<^verbatim>\<open>id\<close>.
\<close>

definition response_result_id :: "json \<Rightarrow> json option" where
  "response_result_id response =
     (case response of
        JDict fs \<Rightarrow> (case map_of fs ''result'' of Some (JDict rs) \<Rightarrow> map_of rs ''id'' | _ \<Rightarrow> None)
      | _ \<Rightarrow> None)"

text \<open>\<^verbatim>\<open>msg['params'][0][k]\<close>: a field of the single params object of a built message.\<close>

definition params0_field :: "json \<Rightarrow> string \<Rightarrow> py_error + json" where
  "params0_field msg k =
     (case getitem_key msg ''params'' of
        Inl e \<Rightarrow> Inl e
      | Inr params \<Rightarrow> (case getitem_idx params 0 of Inl e \<Rightarrow> Inl e | Inr p0 \<Rightarrow> getitem_key p0 k))"

text \<open>
  Every str a value holds, keys included, in the order a serialiser writes them; a string
  appears in a value when it is a contiguous part of one of them.
\<close>

fun json_strings :: "json \<Rightarrow> string list"
  and json_strings_list :: "json list \<Rightarrow> string list"
  and json_strings_items :: "(string \<times> json) list \<Rightarrow> string list" where
  "json_strings (JStr s) = [s]"
| "json_strings (JList xs) = json_strings_list xs"
| "json_strings (JDict kvs) = json_strings_items kvs"
| "json_strings JNull = []"
| "json_strings (JBool b) = []"
| "json_strings (JInt n) = []"
| "json_strings (JFloat f) = []"
| "json_strings_list [] = []"
| "json_strings_list (x # xs) = json_strings x @ json_strings_list xs"
| "json_strings_items [] = []"
| "json_strings_items (kv # kvs) = fst kv # json_strings (snd kv) @ json_strings_items kvs"

definition appears :: "string \<Rightarrow> json \<Rightarrow> bool" where
  "appears s j = list_ex (sublist s) (json_strings j)"

text \<open>The characters \<^verbatim>\<open>hexdigest()\<close> writes.\<close>

definition hex_digits :: "char set" where
  "hex_digits = set ''0123456789abcdef''"

text \<open>
  The floats of the binade \<open>[2\<^sup>3\<^sup>0, 2\<^sup>3\<^sup>1)\<close>: as seconds since the epoch, what
  \<^verbatim>\<open>time.time()\<close> returns between January 2004 and January 2038. Their bit patterns are
  the \<open>2\<^sup>5\<^sup>2\<close> words from \<open>0x41D0000000000000\<close> on.
\<close>

definition recent_timestamp :: "64 word \<Rightarrow> bool" where
  "recent_timestamp t \<longleftrightarrow> 0x41D0000000000000 \<le> t \<and> t \<le> 0x41DFFFFFFFFFFFFF"

text \<open>
  A dispatcher that answers every method call with the same response and keeps a log
  of what \<^verbatim>\<open>call_method\<close> received, and callbacks that log their arguments: the world
  is the log.
\<close>

definition logging_dispatcher :: "json \<Rightarrow> ((json \<times> string option) list, unit) dispatcher" where
  "logging_dispatcher response =
     \<lparr>call_method = (\<lambda>msg i w. (Inr response, w @ [(msg, i)])),
      create_subscription = (\<lambda>msg i fn w. (Inr (), w))\<rparr>"

definition logging_callback2 ::
  "json \<Rightarrow> json \<Rightarrow> (json \<times> json) list \<Rightarrow> (py_error + unit) \<times> (json \<times> json) list" where
  "logging_callback2 a b w = (Inr (), w @ [(a, b)])"

definition logging_callback4 ::
  "json \<Rightarrow> json \<Rightarrow> json \<Rightarrow> json \<Rightarrow> (json \<times> json \<times> json \<times> json) list
     \<Rightarrow> (py_error + unit) \<times> (json \<times> json \<times> json \<times> json) list" where
  "logging_callback4 a b c d w = (Inr (), w @ [(a, b, c, d)])"

section \<open>Facts about the allocator\<close>

lemma digits_value_snoc: "digits_value (s @ [c]) = 10 * digits_value s + (of_char c - 48)"
  by (simp add: digits_value_def)

declare str_nat.simps [simp del]

lemma below_ten_cases:
  "d < 10 \<Longrightarrow> d = 0 \<or> d = 1 \<or> d = 2 \<or> d = 3 \<or> d = 4 \<or> d = 5 \<or> d = 6 \<or> d = 7 \<or> d = 8 \<or> d = (9::nat)"
  by arith

lemma digit_value_char: "d < 10 \<Longrightarrow> of_char (digit_char d) - 48 = d"
  unfolding digit_char_def by (drule below_ten_cases) (elim disjE; simp)

lemma digits_value_str_nat: "digits_value (str_nat n) = n"
proof (induction n rule: str_nat.induct)
  case (1 n)
  show ?case
  proof (cases "n < 10")
    case True
    then show ?thesis
      by (subst str_nat.simps) (simp add: digits_value_def digit_value_char)
  next
    case False
    have m: "n mod 10 < 10" by simp
    from False 1 have ih: "digits_value (str_nat (n div 10)) = n div 10" by simp
    from False show ?thesis
      by (subst str_nat.simps) (simp add: digits_value_snoc ih digit_value_char [OF m])
  qed
qed

lemma str_nat_inj: "str_nat m = str_nat n \<Longrightarrow> m = n"
  by (metis digits_value_str_nat)

lemma str_int_inj_nonneg: "0 \<le> i \<Longrightarrow> 0 \<le> j \<Longrightarrow> str_int i = str_int j \<Longrightarrow> i = j"
  by (auto simp: str_int_def dest: str_nat_inj)

lemma upt_Suc_shift: "map g [0..<Suc n] = g 0 # map (\<lambda>k. g (Suc k)) [0..<n]"
proof -
  have "[0..<Suc n] = 0 # map Suc [0..<n]"
    by (simp only: upt_conv_Cons [of 0 "Suc n"] map_Suc_upt zero_less_Suc)
  then show ?thesis by (simp only: list.map map_map comp_def)
qed

lemma allocations_ids:
  "fst (allocations fs p) = map (\<lambda>k. str_int (max_id p + 1 + int k)) [0..<length fs]"
proof (induction fs arbitrary: p)
  case Nil
  then show ?case by simp
next
  case (Cons f fs)
  let ?p' = "p\<lparr>max_id := max_id p + 1, world := f (world p)\<rparr>"
  have step: "fst (allocations (f # fs) p) = str_int (max_id p + 1) # fst (allocations fs ?p')"
    by (simp add: get_new_id_def Let_def split_beta)
  have "fst (allocations fs ?p') = map (\<lambda>k. str_int (max_id p + 1 + int (Suc k))) [0..<length fs]"
    by (simp add: Cons.IH add.assoc)
  with step show ?case
    by (simp only: length_Cons upt_Suc_shift [where g = "\<lambda>k. str_int (max_id p + 1 + int k)"]) simp
qed

lemma allocations_max_id:
  "max_id (snd (allocations fs p)) = max_id p + int (length fs)"
proof (induction fs arbitrary: p)
  case Nil
  then show ?case by simp
next
  case (Cons f fs)
  let ?p' = "p\<lparr>max_id := max_id p + 1, world := f (world p)\<rparr>"
  have "snd (allocations (f # fs) p) = snd (allocations fs ?p')"
    by (simp add: get_new_id_def Let_def split_beta)
  then show ?case by (simp add: Cons.IH)
qed

lemma distinct_ids:
  assumes "0 \<le> m"
  shows "distinct (map (\<lambda>k. str_int (m + int k)) [0..<n])"
proof -
  have "inj_on (\<lambda>k. str_int (m + int k)) (set [0..<n])"
  proof (rule inj_onI)
    fix x y
    assume "str_int (m + int x) = str_int (m + int y)"
    with str_int_inj_nonneg [of "m + int x" "m + int y"] assms show "x = y" by simp
  qed
  then show ?thesis by (simp add: distinct_map)
qed

text \<open>
  Claim C1. Starting from \<^verbatim>\<open>_max_id = 0\<close>, any number \<open>N\<close> of consecutive
  allocations, whatever happens to the world between them, returns the decimal strings
  of \<open>1, 2, \<dots>, N\<close> in this order (the \<open>k\<close>-th value, counted from 0, formats \<open>1 + k\<close>);
  the returned strings are pairwise distinct, for every \<open>N\<close>, so no value is returned
  twice; and the counter ends at \<open>N\<close>.
\<close>

theorem allocator_ids:
  "fst (allocations fs (initial w)) = map (\<lambda>k. str_int (1 + int k)) [0..<length fs]
   \<and> distinct (fst (allocations fs (initial w)))
   \<and> max_id (snd (allocations fs (initial w))) = int (length fs)"
  using distinct_ids [of 1 "length fs"]
  by (simp add: allocations_ids allocations_max_id initial_def)

lemma str_int_1: "str_int 1 = ''1''"
  by (simp add: str_int_def str_nat.simps digit_char_def)

section \<open>Login\<close>

lemma Login_parse_Inr: "Login_parse response = Inr v \<longleftrightarrow> response_result_id response = Some v"
  by (cases response; simp add: Login_parse_def response_result_id_def split: option.splits json.splits)

lemma Login_parse_Inl: "isl (Login_parse response) \<longleftrightarrow> response_result_id response = None"
  by (cases response; simp add: Login_parse_def response_result_id_def split: option.splits json.splits)

text \<open>
  Claim C3. When the request message is built and the dispatcher returns a raw response,
  \<^verbatim>\<open>Login.call\<close> returns \<open>v\<close> exactly when \<open>v\<close> is the value of the response's
  \<^verbatim>\<open>result.id\<close> field, and it raises exactly when the response has no such field.
\<close>

theorem Login_call_result:
  assumes "Login_get_request_msg lib (fst (get_new_id p)) args = Inr msg"
      and "call_method d msg (Some (fst (get_new_id p))) (world p) = (Inr response, w')"
  shows "(fst (Login_call lib d args p) = Inr v \<longleftrightarrow> response_result_id response = Some v)
       \<and> (isl (fst (Login_call lib d args p)) \<longleftrightarrow> response_result_id response = None)"
proof -
  have "fst (Login_call lib d args p) = Login_parse response"
    using assms by (simp add: Login_call_def await_call_method_def get_new_id_def Let_def)
  then show ?thesis by (simp add: Login_parse_Inr Login_parse_Inl)
qed

text \<open>
  Witness for C3: a resume-token login against a dispatcher that answers with
  \<^verbatim>\<open>{result: {id: "u1", token: "t"}}\<close> returns \<^verbatim>\<open>"u1"\<close>; against one that answers with an
  error object and no result, it raises.
\<close>

theorem Login_call_result_witness:
  "\<forall>lib. fst (Login_call lib (logging_dispatcher (JDict [(''msg'', JStr ''result''), (''id'', JStr ''1''),
                (''result'', JDict [(''id'', JStr ''u1''), (''token'', JStr ''t'')])]))
            [JStr ''resume-token''] (initial [])) = Inr (JStr ''u1'')
       \<and> isl (fst (Login_call lib (logging_dispatcher (JDict [(''msg'', JStr ''result''), (''id'', JStr ''1''),
                (''error'', JDict [(''error'', JInt 403)])]))
            [JStr ''resume-token''] (initial [])))"
proof (intro allI conjI)
  fix lib :: library
  let ?ok = "JDict [(''msg'', JStr ''result''), (''id'', JStr ''1''),
                (''result'', JDict [(''id'', JStr ''u1''), (''token'', JStr ''t'')])]"
  let ?bad = "JDict [(''msg'', JStr ''result''), (''id'', JStr ''1''),
                (''error'', JDict [(''error'', JInt 403)])]"
  let ?msg = "JDict [(''msg'', JStr ''method''), (''method'', JStr ''login''), (''id'', JStr ''1''),
                 (''params'', JList [JDict [(''resume'', JStr ''resume-token'')]])]"
  have m: "Login_get_request_msg lib (fst (get_new_id (initial []))) [JStr ''resume-token''] = Inr ?msg"
    by (simp add: Login_get_request_msg_def get_new_id_def initial_def str_int_1)
  have a: "call_method (logging_dispatcher ?ok) ?msg (Some (fst (get_new_id (initial [])))) (world (initial []))
             = (Inr ?ok, [(?msg, Some ''1'')])"
    by (simp add: logging_dispatcher_def get_new_id_def initial_def str_int_1)
  have b: "call_method (logging_dispatcher ?bad) ?msg (Some (fst (get_new_id (initial [])))) (world (initial []))
             = (Inr ?bad, [(?msg, Some ''1'')])"
    by (simp add: logging_dispatcher_def get_new_id_def initial_def str_int_1)
  show "fst (Login_call lib (logging_dispatcher ?ok) [JStr ''resume-token''] (initial [])) = Inr (JStr ''u1'')"
    using Login_call_result [OF m a, of "JStr ''u1''"] by (simp add: response_result_id_def)
  show "isl (fst (Login_call lib (logging_dispatcher ?bad) [JStr ''resume-token''] (initial [])))"
    using Login_call_result [OF m b, of "JNull"] by (simp add: response_result_id_def)
qed

text \<open>
  Claim C10. The builder takes the resume form only for one argument. With two or more
  arguments, the second a str, it builds the digest form from the first two and ignores
  the rest. With no argument it raises \<^verbatim>\<open>IndexError\<close>; \<^verbatim>\<open>Login.call\<close> then raises it
  after allocating the id, and the world, the dispatcher with it, is untouched.
\<close>

theorem Login_request_forms:
  "Login_get_request_msg lib msg_id [token] =
     Inr (JDict [(''msg'', JStr ''method''), (''method'', JStr ''login''), (''id'', JStr msg_id),
                 (''params'', JList [JDict [(''resume'', token)]])])
   \<and> Login_get_request_msg lib msg_id (u # JStr pwd # rest) =
     Inr (JDict [(''msg'', JStr ''method''), (''method'', JStr ''login''), (''id'', JStr msg_id),
                 (''params'', JList [JDict [(''user'', JDict [(''username'', u)]),
                    (''password'', JDict [(''digest'', JStr (hexdigest (sha256_encoded lib pwd))),
                                          (''algorithm'', JStr ''sha-256'')])]])])
   \<and> Login_get_request_msg lib msg_id [] = Inl IndexError
   \<and> Login_call lib d [] p = (Inl IndexError, p\<lparr>max_id := max_id p + 1\<rparr>)
   \<and> world (snd (Login_call lib d [] p)) = world p"
  by (simp add: Login_get_request_msg_def Login_call_def get_new_id_def Let_def)

section \<open>GetChannels\<close>

lemma channel_pairs_zip:
  "map (\<lambda>r. map_of r ''_id'') rs = map Some ids \<Longrightarrow> map (\<lambda>r. map_of r ''t'') rs = map Some ts
     \<Longrightarrow> channel_pairs (map JDict rs) = Inr (zip ids ts)"
proof (induction rs arbitrary: ids ts)
  case Nil
  then show ?case by simp
next
  case (Cons r rs)
  then obtain i ids' t ts' where "ids = i # ids'" "ts = t # ts'"
    by (cases ids; cases ts) auto
  with Cons show ?case by simp
qed

text \<open>
  Claim C4. For a response whose \<^verbatim>\<open>result\<close> is a list of records, the \<open>k\<close>-th with
  \<^verbatim>\<open>_id\<close> \<open>ids ! k\<close> and \<^verbatim>\<open>t\<close> \<open>ts ! k\<close>, parsing returns the pairs \<open>(ids ! k, ts ! k)\<close> in
  the order of the list.
\<close>

theorem GetChannels_parse_pairs:
  assumes "map_of fs ''result'' = Some (JList (map JDict rs))"
      and "map (\<lambda>r. map_of r ''_id'') rs = map Some ids"
      and "map (\<lambda>r. map_of r ''t'') rs = map Some ts"
  shows "GetChannels_parse (JDict fs) = Inr (zip ids ts)"
  using assms by (simp add: GetChannels_parse_def channel_pairs_zip)

text \<open>
  Witness for C4: \<^verbatim>\<open>{result: [{_id: "a", t: "c"}, {_id: "b", t: "p"}]}\<close> parses to
  \<^verbatim>\<open>[("a", "c"), ("b", "p")]\<close>.
\<close>

theorem GetChannels_parse_pairs_witness:
  "GetChannels_parse (JDict [(''result'', JList [JDict [(''_id'', JStr ''a''), (''t'', JStr ''c'')],
                                                 JDict [(''_id'', JStr ''b''), (''t'', JStr ''p'')]])])
     = Inr [(JStr ''a'', JStr ''c''), (JStr ''b'', JStr ''p'')]"
  using GetChannels_parse_pairs [of "[(''result'', JList [JDict [(''_id'', JStr ''a''), (''t'', JStr ''c'')],
                                                 JDict [(''_id'', JStr ''b''), (''t'', JStr ''p'')]])]"
      "[[(''_id'', JStr ''a''), (''t'', JStr ''c'')], [(''_id'', JStr ''b''), (''t'', JStr ''p'')]]"
      "[JStr ''a'', JStr ''b'']" "[JStr ''c'', JStr ''p'']"]
  by simp

section \<open>SendMessage: the extra fields\<close>

lemma map_of_fold_update:
  "distinct (map fst kwargs) \<Longrightarrow>
   map_of (fold (\<lambda>kv. AList.update (fst kv) (snd kv)) kwargs base) k =
     (case map_of kwargs k of Some v \<Rightarrow> Some v | None \<Rightarrow> map_of base k)"
proof (induction kwargs arbitrary: base k)
  case Nil
  then show ?case by simp
next
  case (Cons kv kwargs)
  obtain key val where kv: "kv = (key, val)" by (cases kv)
  from Cons.prems kv have fresh: "map_of kwargs key = None" and d: "distinct (map fst kwargs)"
    by (auto simp: map_of_eq_None_iff)
  show ?case
  proof (cases "k = key")
    case True
    with fresh kv show ?thesis by (simp add: Cons.IH [OF d] update_conv')
  next
    case False
    with kv show ?thesis by (simp add: Cons.IH [OF d] update_conv' split: option.splits)
  qed
qed

text \<open>
  Claim C6. The built message has one params object. For every key, its value there is
  the value the extra fields give the key, when they have it (also for \<^verbatim>\<open>_id\<close>,
  \<^verbatim>\<open>rid\<close> and \<^verbatim>\<open>msg\<close>: the extra field wins), and the base value otherwise. The extra
  fields are a dict: their keys are distinct.
\<close>

theorem SendMessage_extra_fields:
  assumes "distinct (map fst kwargs)"
  shows "\<exists>obj. getitem_key (SendMessage_get_request_msg lib now msg_id channel_id msg_text kwargs) ''params''
                 = Inr (JList [JDict obj])
           \<and> (\<forall>k. map_of obj k =
                 (case map_of kwargs k of
                    Some v \<Rightarrow> Some v
                  | None \<Rightarrow> map_of [(''_id'', JStr (take 12 (hexdigest (md5_encoded lib (msg_id @ '':'' @ float_str lib now))))),
                                     (''rid'', channel_id), (''msg'', msg_text)] k))"
proof (intro exI conjI allI)
  show "getitem_key (SendMessage_get_request_msg lib now msg_id channel_id msg_text kwargs) ''params''
          = Inr (JList [JDict (fold (\<lambda>kv. AList.update (fst kv) (snd kv)) kwargs
              [(''_id'', JStr (take 12 (hexdigest (md5_encoded lib (msg_id @ '':'' @ float_str lib now))))),
               (''rid'', channel_id), (''msg'', msg_text)])])"
    unfolding SendMessage_get_request_msg_def Let_def by simp
  show "map_of (fold (\<lambda>kv. AList.update (fst kv) (snd kv)) kwargs
              [(''_id'', JStr (take 12 (hexdigest (md5_encoded lib (msg_id @ '':'' @ float_str lib now))))),
               (''rid'', channel_id), (''msg'', msg_text)]) k =
          (case map_of kwargs k of
             Some v \<Rightarrow> Some v
           | None \<Rightarrow> map_of [(''_id'', JStr (take 12 (hexdigest (md5_encoded lib (msg_id @ '':'' @ float_str lib now))))),
                              (''rid'', channel_id), (''msg'', msg_text)] k)" for k
    by (rule map_of_fold_update [OF assms])
qed

text \<open>
  Witness for C6: with the extra fields \<^verbatim>\<open>{msg: "shadow", attachments: []}\<close> the params
  object has \<^verbatim>\<open>msg\<close> \<^verbatim>\<open>"shadow"\<close> (the text \<^verbatim>\<open>"hello"\<close> is overwritten), the attachments
  as given, and the channel id unchanged.
\<close>

theorem SendMessage_extra_fields_witness:
  "\<forall>lib now.
     params0_field (SendMessage_get_request_msg lib now ''7'' (JStr ''room'') (JStr ''hello'')
        [(''msg'', JStr ''shadow''), (''attachments'', JList [])]) ''msg'' = Inr (JStr ''shadow'')
   \<and> params0_field (SendMessage_get_request_msg lib now ''7'' (JStr ''room'') (JStr ''hello'')
        [(''msg'', JStr ''shadow''), (''attachments'', JList [])]) ''attachments'' = Inr (JList [])
   \<and> params0_field (SendMessage_get_request_msg lib now ''7'' (JStr ''room'') (JStr ''hello'')
        [(''msg'', JStr ''shadow''), (''attachments'', JList [])]) ''rid'' = Inr (JStr ''room'')"
proof (intro allI)
  fix lib now
  have d: "distinct (map fst [(''msg'', JStr ''shadow''), (''attachments'', JList [])])" by simp
  from SendMessage_extra_fields [OF d, of lib now "''7''" "JStr ''room''" "JStr ''hello''"]
  obtain obj where
    p: "getitem_key (SendMessage_get_request_msg lib now ''7'' (JStr ''room'') (JStr ''hello'')
          [(''msg'', JStr ''shadow''), (''attachments'', JList [])]) ''params'' = Inr (JList [JDict obj])"
    and m: "\<And>k. map_of obj k =
                 (case map_of [(''msg'', JStr ''shadow''), (''attachments'', JList [])] k of
                    Some v \<Rightarrow> Some v
                  | None \<Rightarrow> map_of [(''_id'', JStr (take 12 (hexdigest (md5_encoded lib (''7'' @ '':'' @ float_str lib now))))),
                                     (''rid'', JStr ''room''), (''msg'', JStr ''hello'')] k)"
    by blast
  show "params0_field (SendMessage_get_request_msg lib now ''7'' (JStr ''room'') (JStr ''hello'')
        [(''msg'', JStr ''shadow''), (''attachments'', JList [])]) ''msg'' = Inr (JStr ''shadow'')
   \<and> params0_field (SendMessage_get_request_msg lib now ''7'' (JStr ''room'') (JStr ''hello'')
        [(''msg'', JStr ''shadow''), (''attachments'', JList [])]) ''attachments'' = Inr (JList [])
   \<and> params0_field (SendMessage_get_request_msg lib now ''7'' (JStr ''room'') (JStr ''hello'')
        [(''msg'', JStr ''shadow''), (''attachments'', JList [])]) ''rid'' = Inr (JStr ''room'')"
    by (simp add: params0_field_def p m [of "''msg''"] m [of "''attachments''"] m [of "''rid''"])
qed

section \<open>SendTypingEvent\<close>

text \<open>
  Counterexample for C7: for the channel \<^verbatim>\<open>"room"\<close>, the user \<^verbatim>\<open>"alice"\<close> and the flag
  \<^verbatim>\<open>True\<close>, the first operation of a process hands \<^verbatim>\<open>call_method\<close> the message and the
  correlation id \<^verbatim>\<open>"1"\<close>, not a missing id: the log of the dispatcher holds the pair.
\<close>

theorem SendTypingEvent_passes_id:
  "world (snd (SendTypingEvent_call (logging_dispatcher JNull) ''room'' (JStr ''alice'') (JBool True) (initial [])))
     = [(JDict [(''msg'', JStr ''method''), (''method'', JStr ''stream-notify-room''), (''id'', JStr ''1''),
                (''params'', JList [JStr ''room/typing'', JStr ''alice'', JBool True])], Some ''1'')]"
  by (simp add: SendTypingEvent_call_def SendTypingEvent_get_request_msg_def await_call_method_def
      get_new_id_def initial_def logging_dispatcher_def str_int_1 Let_def)

text \<open>
  Claim C7, amended. \<^verbatim>\<open>SendTypingEvent.call\<close> allocates the next id, calls
  \<^verbatim>\<open>call_method\<close> once, with the method message named \<^verbatim>\<open>stream-notify-room\<close> whose params are
  \<^verbatim>\<open>[channel_id + "/typing", username, is_typing]\<close> and with that id as second argument
  (so the dispatcher awaits the reply), and returns nothing of the response: it returns
  \<open>None\<close>, or raises what the dispatcher raised.
\<close>

theorem SendTypingEvent_call_sends:
  "SendTypingEvent_call d channel_id username is_typing p =
     (case call_method d
             (JDict [(''msg'', JStr ''method''), (''method'', JStr ''stream-notify-room''),
                     (''id'', JStr (str_int (max_id p + 1))),
                     (''params'', JList [JStr (channel_id @ ''/typing''), username, is_typing])])
             (Some (str_int (max_id p + 1))) (world p) of
        (Inl e, w') \<Rightarrow> (Inl e, \<lparr>max_id = max_id p + 1, world = w'\<rparr>)
      | (Inr response, w') \<Rightarrow> (Inr (), \<lparr>max_id = max_id p + 1, world = w'\<rparr>))"
  by (cases p) (simp add: SendTypingEvent_call_def SendTypingEvent_get_request_msg_def await_call_method_def
      get_new_id_def Let_def split: prod.splits sum.splits)

section \<open>The subscription adapters\<close>

text \<open>
  Claim C8. For a push event whose \<^verbatim>\<open>fields.args\<close> is a list with first element \<open>p0\<close>:
  when \<open>p0\<close> is the str \<^verbatim>\<open>"removed"\<close> the adapter returns \<open>None\<close> and the world is as
  before, so the callback did not run; otherwise, when the second element is a record
  with \<^verbatim>\<open>_id\<close> and \<^verbatim>\<open>t\<close>, the adapter is one run of the callback on these two values, in
  this order, and returns what it returns.
\<close>

theorem ChannelChanges_adapter:
  assumes "map_of ev ''fields'' = Some (JDict fs)"
      and "map_of fs ''args'' = Some (JList (p0 # rest))"
  shows "(p0 = JStr ''removed'' \<longrightarrow> SubscribeToChannelChanges_wrap callback (JDict ev) w = (Inr None, w))
       \<and> (p0 \<noteq> JStr ''removed'' \<and> rest = JDict ch # others
            \<and> map_of ch ''_id'' = Some channel_id \<and> map_of ch ''t'' = Some channel_type \<longrightarrow>
          SubscribeToChannelChanges_wrap callback (JDict ev) w =
            (case callback channel_id channel_type w of
               (Inl e, w') \<Rightarrow> (Inl e, w')
             | (Inr r, w') \<Rightarrow> (Inr (Some r), w')))"
  using assms by (simp add: SubscribeToChannelChanges_wrap_def)

text \<open>
  Witness for C8, with a callback that logs its arguments: the args
  \<^verbatim>\<open>["removed", {_id: "x"}]\<close> leave the log empty, the args
  \<^verbatim>\<open>["added", {_id: "x", t: "p"}]\<close> leave the one entry \<^verbatim>\<open>("x", "p")\<close>.
\<close>

theorem ChannelChanges_adapter_witness:
  "SubscribeToChannelChanges_wrap logging_callback2
     (JDict [(''msg'', JStr ''changed''), (''fields'', JDict [(''eventName'', JStr ''u/rooms-changed''),
        (''args'', JList [JStr ''removed'', JDict [(''_id'', JStr ''x'')]])])]) [] = (Inr None, [])
   \<and> SubscribeToChannelChanges_wrap logging_callback2
     (JDict [(''msg'', JStr ''changed''), (''fields'', JDict [(''eventName'', JStr ''u/rooms-changed''),
        (''args'', JList [JStr ''added'', JDict [(''_id'', JStr ''x''), (''t'', JStr ''p'')]])])]) []
       = (Inr (Some ()), [(JStr ''x'', JStr ''p'')])"
  using ChannelChanges_adapter [where ev = "[(''msg'', JStr ''changed''), (''fields'', JDict [(''eventName'', JStr ''u/rooms-changed''),
        (''args'', JList [JStr ''removed'', JDict [(''_id'', JStr ''x'')]])])]"
      and fs = "[(''eventName'', JStr ''u/rooms-changed''), (''args'', JList [JStr ''removed'', JDict [(''_id'', JStr ''x'')]])]"
      and ?p0.0 = "JStr ''removed''" and rest = "[JDict [(''_id'', JStr ''x'')]]"
      and callback = logging_callback2 and w = "[]"]
    ChannelChanges_adapter [where ev = "[(''msg'', JStr ''changed''), (''fields'', JDict [(''eventName'', JStr ''u/rooms-changed''),
        (''args'', JList [JStr ''added'', JDict [(''_id'', JStr ''x''), (''t'', JStr ''p'')]])])]"
      and fs = "[(''eventName'', JStr ''u/rooms-changed''), (''args'', JList [JStr ''added'', JDict [(''_id'', JStr ''x''), (''t'', JStr ''p'')]])]"
      and ?p0.0 = "JStr ''added''" and rest = "[JDict [(''_id'', JStr ''x''), (''t'', JStr ''p'')]]"
      and ch = "[(''_id'', JStr ''x''), (''t'', JStr ''p'')]" and others = "[]"
      and channel_id = "JStr ''x''" and channel_type = "JStr ''p''"
      and callback = logging_callback2 and w = "[]"]
  by (simp add: logging_callback2_def)

text \<open>
  Claim C9. For a push event whose \<^verbatim>\<open>fields.args\<close> is a list that starts with a record
  carrying \<^verbatim>\<open>_id\<close>, \<^verbatim>\<open>rid\<close> and \<^verbatim>\<open>u._id\<close>, the adapter is one run of the callback on
  \<open>(rid, u._id, _id, the whole record)\<close>, in this order, and returns what it returns.
\<close>

theorem ChannelMessages_adapter:
  assumes "map_of ev ''fields'' = Some (JDict fs)"
      and "map_of fs ''args'' = Some (JList (JDict message # rest))"
      and "map_of message ''_id'' = Some msg_id"
      and "map_of message ''rid'' = Some channel_id"
      and "map_of message ''u'' = Some (JDict u)"
      and "map_of u ''_id'' = Some sender_id"
  shows "SubscribeToChannelMessages_wrap callback (JDict ev) w =
            (case callback channel_id sender_id msg_id (JDict message) w of
               (Inl e, w') \<Rightarrow> (Inl e, w')
             | (Inr r, w') \<Rightarrow> (Inr (Some r), w'))"
  using assms by (simp add: SubscribeToChannelMessages_wrap_def)

text \<open>
  Witness for C9, with a callback that logs its arguments: for
  \<^verbatim>\<open>fields.args[0] = {_id: "m1", rid: "r1", u: {_id: "u1"}}\<close> the log ends with the one
  entry \<^verbatim>\<open>("r1", "u1", "m1", message)\<close>.
\<close>

theorem ChannelMessages_adapter_witness:
  "SubscribeToChannelMessages_wrap logging_callback4
     (JDict [(''msg'', JStr ''changed''), (''fields'', JDict [(''eventName'', JStr ''r1''),
        (''args'', JList [JDict [(''_id'', JStr ''m1''), (''rid'', JStr ''r1''), (''u'', JDict [(''_id'', JStr ''u1'')])]])])]) []
   = (Inr (Some ()), [(JStr ''r1'', JStr ''u1'', JStr ''m1'',
        JDict [(''_id'', JStr ''m1''), (''rid'', JStr ''r1''), (''u'', JDict [(''_id'', JStr ''u1'')])])])"
  using ChannelMessages_adapter [where ev = "[(''msg'', JStr ''changed''), (''fields'', JDict [(''eventName'', JStr ''r1''),
        (''args'', JList [JDict [(''_id'', JStr ''m1''), (''rid'', JStr ''r1''), (''u'', JDict [(''_id'', JStr ''u1'')])]])])]"
      and fs = "[(''eventName'', JStr ''r1''),
        (''args'', JList [JDict [(''_id'', JStr ''m1''), (''rid'', JStr ''r1''), (''u'', JDict [(''_id'', JStr ''u1'')])]])]"
      and message = "[(''_id'', JStr ''m1''), (''rid'', JStr ''r1''), (''u'', JDict [(''_id'', JStr ''u1'')])]"
      and rest = "[]" and msg_id = "JStr ''m1''" and channel_id = "JStr ''r1''"
      and u = "[(''_id'', JStr ''u1'')]" and sender_id = "JStr ''u1''"
      and callback = logging_callback4 and w = "[]"]
  by (simp add: logging_callback4_def)

section \<open>SendMessage: the generated message id\<close>

lemma unat_recent:
  "n < 2 ^ 52 \<Longrightarrow> unat (0x41D0000000000000 + word_of_nat n :: 64 word) = 4742290407621132288 + n"
  by (simp add: unat_word_ariths unat_of_nat)

lemma recent_offset: "n < 2 ^ 52 \<Longrightarrow> recent_timestamp (0x41D0000000000000 + word_of_nat n)"
  by (simp add: recent_timestamp_def word_le_nat_alt unat_recent)

lemma offset_inj: "inj_on (\<lambda>n. 0x41D0000000000000 + word_of_nat n :: 64 word) {..<2 ^ 52}"
proof (rule inj_onI)
  fix x y :: nat
  assume x: "x \<in> {..<2 ^ 52}" and y: "y \<in> {..<2 ^ 52}"
    and eq: "(0x41D0000000000000 + word_of_nat x :: 64 word) = 0x41D0000000000000 + word_of_nat y"
  from x have ux: "unat (0x41D0000000000000 + word_of_nat x :: 64 word) = 4742290407621132288 + x"
    by (simp add: unat_recent)
  from y have uy: "unat (0x41D0000000000000 + word_of_nat y :: 64 word) = 4742290407621132288 + y"
    by (simp add: unat_recent)
  from eq have "unat (0x41D0000000000000 + word_of_nat x :: 64 word)
      = unat (0x41D0000000000000 + word_of_nat y :: 64 word)"
    by (simp only:)
  then show "x = y" unfolding ux uy by simp
qed

lemma hex_char_digit: "d < 16 \<Longrightarrow> hex_char d \<in> hex_digits"
  unfolding hex_char_def hex_digits_def by (rule nth_mem) simp

lemma hexdigest_digits: "set (hexdigest w) \<subseteq> hex_digits"
proof -
  have "unat (take_bit 4 x) < 16" for x :: "'a word"
    using take_bit_nat_less_exp [of 4 "unat x"] by (simp add: unsigned_take_bit_eq)
  then show ?thesis
    by (auto simp: hexdigest_def intro: hex_char_digit)
qed

lemma length_hexdigest: "length (hexdigest (w :: 'a::len word)) = LENGTH('a) div 4"
  by (simp add: hexdigest_def)

lemma card_hex_digits: "card hex_digits = 16"
  by (simp add: hex_digits_def card_insert_if)

lemma finite_hex_digits: "finite hex_digits"
  by (simp add: hex_digits_def)

lemma short_ids_card: "card {xs. set xs \<subseteq> hex_digits \<and> length xs = 12} = 16 ^ 12"
  by (simp only: card_lists_length_eq [OF finite_hex_digits] card_hex_digits)

lemma short_ids_finite: "finite {xs. set xs \<subseteq> hex_digits \<and> length xs = 12}"
  by (rule finite_lists_length_eq [OF finite_hex_digits])

lemma short_id: "set (take 12 (hexdigest (w :: 128 word))) \<subseteq> hex_digits \<and> length (take 12 (hexdigest w)) = 12"
  using hexdigest_digits [of w] set_take_subset [of 12 "hexdigest w"]
  by (simp add: length_hexdigest)

lemma truncated_digest_collision:
  fixes h :: "64 word \<Rightarrow> 128 word"
  shows "\<exists>t1 t2. t1 \<noteq> t2 \<and> recent_timestamp t1 \<and> recent_timestamp t2
     \<and> take 12 (hexdigest (h t1)) = take 12 (hexdigest (h t2))"
proof -
  define N :: nat where "N = 2 ^ 52"
  define S where "S = {xs. set xs \<subseteq> hex_digits \<and> length xs = 12}"
  let ?g = "\<lambda>n. 0x41D0000000000000 + word_of_nat n :: 64 word"
  let ?f = "\<lambda>n. take 12 (hexdigest (h (?g n)))"
  have "?f ` {..<N} \<subseteq> S"
    unfolding S_def using short_id by blast
  moreover have "finite S" unfolding S_def by (rule short_ids_finite)
  ultimately have "card (?f ` {..<N}) \<le> card S" by (rule card_mono [rotated])
  also have "card S = 16 ^ 12" unfolding S_def by (rule short_ids_card)
  also have "(16::nat) ^ 12 < N" unfolding N_def by simp
  finally have "card (?f ` {..<N}) < card {..<N}" by simp
  then have "\<not> inj_on ?f {..<N}" by (rule pigeonhole)
  then obtain x y where xy: "x < N" "y < N" "x \<noteq> y" "?f x = ?f y"
    unfolding inj_on_def by blast
  have inj: "inj_on ?g {..<N}" unfolding N_def by (rule offset_inj)
  from xy have "?g x \<noteq> ?g y" using inj_onD [OF inj, of x y] by blast
  moreover have "recent_timestamp (?g x)" "recent_timestamp (?g y)"
    using xy recent_offset [of x] recent_offset [of y] unfolding N_def by blast+
  ultimately show ?thesis using xy(4) by blast
qed

lemma map_of_fold_update_other:
  "map_of kwargs k = None \<Longrightarrow>
   map_of (fold (\<lambda>kv. AList.update (fst kv) (snd kv)) kwargs base) k = map_of base k"
proof (induction kwargs arbitrary: base)
  case Nil
  then show ?case by simp
next
  case (Cons kv kwargs)
  then show ?case by (cases kv) (simp add: update_conv' split: if_splits)
qed

lemma SendMessage_id_field:
  "map_of kwargs ''_id'' = None \<Longrightarrow>
   params0_field (SendMessage_get_request_msg lib now msg_id channel_id msg_text kwargs) ''_id''
     = Inr (JStr (take 12 (hexdigest (md5_encoded lib (msg_id @ '':'' @ float_str lib now)))))"
  unfolding SendMessage_get_request_msg_def Let_def params0_field_def
  by (simp add: map_of_fold_update_other)

text \<open>
  Counterexample for C5: whatever MD5 and the float formatting compute, and for every
  correlation id, two distinct timestamps between 2004 and 2038 get the same
  \<^verbatim>\<open>_id\<close>: there are \<open>2\<^sup>5\<^sup>2\<close> such timestamps and only \<open>16\<^sup>1\<^sup>2 = 2\<^sup>4\<^sup>8\<close> strings of 12
  hexadecimal characters.
\<close>

theorem SendMessage_id_collision:
  "\<forall>lib msg_id. \<exists>t1 t2. t1 \<noteq> t2 \<and> recent_timestamp t1 \<and> recent_timestamp t2
      \<and> params0_field (SendMessage_get_request_msg lib t1 msg_id (JStr ''GENERAL'') (JStr ''hello'') []) ''_id''
        = params0_field (SendMessage_get_request_msg lib t2 msg_id (JStr ''GENERAL'') (JStr ''hello'') []) ''_id''"
proof (intro allI)
  fix lib :: library and msg_id :: string
  from truncated_digest_collision [of "\<lambda>t. md5_encoded lib (msg_id @ '':'' @ float_str lib t)"]
  obtain t1 t2 where "t1 \<noteq> t2" "recent_timestamp t1" "recent_timestamp t2"
    and "take 12 (hexdigest (md5_encoded lib (msg_id @ '':'' @ float_str lib t1)))
       = take 12 (hexdigest (md5_encoded lib (msg_id @ '':'' @ float_str lib t2)))"
    by blast
  then show "\<exists>t1 t2. t1 \<noteq> t2 \<and> recent_timestamp t1 \<and> recent_timestamp t2
      \<and> params0_field (SendMessage_get_request_msg lib t1 msg_id (JStr ''GENERAL'') (JStr ''hello'') []) ''_id''
        = params0_field (SendMessage_get_request_msg lib t2 msg_id (JStr ''GENERAL'') (JStr ''hello'') []) ''_id''"
    by (intro exI [of _ t1] exI [of _ t2]) (simp add: SendMessage_id_field)
qed

text \<open>
  Claim C5, amended. When the extra fields carry no \<^verbatim>\<open>_id\<close> of their own, the \<^verbatim>\<open>_id\<close> of
  the built message is the first 12 characters of the hexadecimal MD5 digest of
  \<^verbatim>\<open>msg_id + ":" + str(timestamp)\<close>: a function of the correlation id and the timestamp
  alone, 12 characters long, all of them hexadecimal digits.
\<close>

theorem SendMessage_generated_id:
  assumes "map_of kwargs ''_id'' = None"
  shows "\<exists>i. params0_field (SendMessage_get_request_msg lib now msg_id channel_id msg_text kwargs) ''_id''
               = Inr (JStr i)
           \<and> i = take 12 (hexdigest (md5_encoded lib (msg_id @ '':'' @ float_str lib now)))
           \<and> length i = 12 \<and> set i \<subseteq> hex_digits"
  using SendMessage_id_field [OF assms] short_id by blast

text \<open>
  Witness for C5: the first message of a process, sent with a thread id as extra field.
\<close>

theorem SendMessage_generated_id_witness:
  "\<forall>lib now. \<exists>i. params0_field (SendMessage_get_request_msg lib now ''1'' (JStr ''GENERAL'') (JStr ''hello'')
                     [(''tmid'', JStr ''m0'')]) ''_id'' = Inr (JStr i)
                 \<and> length i = 12 \<and> set i \<subseteq> hex_digits"
proof (intro allI)
  fix lib now
  have "map_of [(''tmid'', JStr ''m0'')] ''_id'' = None" by simp
  from SendMessage_generated_id [OF this, of lib now "''1''" "JStr ''GENERAL''" "JStr ''hello''"]
  show "\<exists>i. params0_field (SendMessage_get_request_msg lib now ''1'' (JStr ''GENERAL'') (JStr ''hello'')
                     [(''tmid'', JStr ''m0'')]) ''_id'' = Inr (JStr i)
                 \<and> length i = 12 \<and> set i \<subseteq> hex_digits"
    by blast
qed


section \<open>Login: the password\<close>

text \<open>
  Counterexample for C2: logging in as \<^verbatim>\<open>"admin"\<close> with the password \<^verbatim>\<open>"admin"\<close> builds a
  message that holds the password string in the clear, as the username.
\<close>

theorem Login_password_appears:
  "\<forall>lib. \<exists>msg. Login_get_request_msg lib ''1'' [JStr ''admin'', JStr ''admin''] = Inr msg
           \<and> params0_field msg ''user'' = Inr (JDict [(''username'', JStr ''admin'')])
           \<and> appears ''admin'' msg"
  by (simp add: Login_get_request_msg_def params0_field_def appears_def Let_def)

text \<open>
  Claim C2, amended. The message built from a username and a password holds the username
  under \<^verbatim>\<open>user\<close> and, under \<^verbatim>\<open>password\<close>, exactly the hexadecimal SHA-256 digest of the
  password and the algorithm name \<^verbatim>\<open>"sha-256"\<close>. Its strings are the fixed keys and
  literals, the correlation id, the strings of the username and the digest; so the
  password appears in the message exactly when it is part of one of these.
\<close>

theorem Login_password_digest:
  "\<exists>msg. Login_get_request_msg lib msg_id [username, JStr pwd] = Inr msg
     \<and> params0_field msg ''user'' = Inr (JDict [(''username'', username)])
     \<and> params0_field msg ''password'' =
         Inr (JDict [(''digest'', JStr (hexdigest (sha256_encoded lib pwd))), (''algorithm'', JStr ''sha-256'')])
     \<and> json_strings msg =
         [''msg'', ''method'', ''method'', ''login'', ''id'', msg_id, ''params'', ''user'', ''username'']
         @ json_strings username
         @ [''password'', ''digest'', hexdigest (sha256_encoded lib pwd), ''algorithm'', ''sha-256'']
     \<and> (appears pwd msg \<longleftrightarrow>
          sublist pwd msg_id \<or> list_ex (sublist pwd) (json_strings username)
          \<or> sublist pwd (hexdigest (sha256_encoded lib pwd))
          \<or> list_ex (sublist pwd)
               [''msg'', ''method'', ''login'', ''id'', ''params'', ''user'', ''username'',
                ''password'', ''digest'', ''algorithm'', ''sha-256''])"
  by (auto simp add: Login_get_request_msg_def params0_field_def appears_def Let_def)

section \<open>What every operation does with the allocator and the dispatcher\<close>

text \<open>
  Every operation that needs an id allocates exactly one: its call advances
  \<^verbatim>\<open>_max_id\<close> by one, whatever the dispatcher does and whether or not the call raises.
  \<^verbatim>\<open>Connect\<close> and \<^verbatim>\<open>Unsubscribe\<close> allocate none.
\<close>

theorem operations_allocate_once:
  "max_id (snd (Connect_call d p)) = max_id p
   \<and> max_id (snd (Login_call lib d args p)) = max_id p + 1
   \<and> max_id (snd (GetChannels_call d p)) = max_id p + 1
   \<and> max_id (snd (SendMessage_call lib now d msg_text channel_id kwargs p)) = max_id p + 1
   \<and> max_id (snd (SendReaction_call d orig_msg_id emoji p)) = max_id p + 1
   \<and> max_id (snd (SendTypingEvent_call d room username is_typing p)) = max_id p + 1
   \<and> max_id (snd (SubscribeToChannelMessages_call d channel_id callback4 p)) = max_id p + 1
   \<and> max_id (snd (SubscribeToChannelChanges_call d user_id callback2 p)) = max_id p + 1
   \<and> max_id (snd (Unsubscribe_call d subscription_id p)) = max_id p"
proof (intro conjI)
  show "max_id (snd (Connect_call d p)) = max_id p"
    by (auto simp: Connect_call_def await_call_method_def split: prod.splits sum.splits)
  show "max_id (snd (Login_call lib d args p)) = max_id p + 1"
    by (auto simp: Login_call_def get_new_id_def Let_def await_call_method_def
        split: prod.splits sum.splits)
  show "max_id (snd (GetChannels_call d p)) = max_id p + 1"
    by (auto simp: GetChannels_call_def get_new_id_def Let_def await_call_method_def
        split: prod.splits sum.splits)
  show "max_id (snd (SendMessage_call lib now d msg_text channel_id kwargs p)) = max_id p + 1"
    by (auto simp: SendMessage_call_def get_new_id_def Let_def await_call_method_def
        split: prod.splits sum.splits)
  show "max_id (snd (SendReaction_call d orig_msg_id emoji p)) = max_id p + 1"
    by (auto simp: SendReaction_call_def get_new_id_def Let_def await_call_method_def
        split: prod.splits sum.splits)
  show "max_id (snd (SendTypingEvent_call d room username is_typing p)) = max_id p + 1"
    by (auto simp: SendTypingEvent_call_def get_new_id_def Let_def await_call_method_def
        split: prod.splits sum.splits)
  show "max_id (snd (SubscribeToChannelMessages_call d channel_id callback4 p)) = max_id p + 1"
    by (auto simp: SubscribeToChannelMessages_call_def get_new_id_def Let_def
        await_create_subscription_def split: prod.splits sum.splits)
  show "max_id (snd (SubscribeToChannelChanges_call d user_id callback2 p)) = max_id p + 1"
    by (auto simp: SubscribeToChannelChanges_call_def get_new_id_def Let_def
        await_create_subscription_def split: prod.splits sum.splits)
  show "max_id (snd (Unsubscribe_call d subscription_id p)) = max_id p"
    by (auto simp: Unsubscribe_call_def await_call_method_def split: prod.splits sum.splits)
qed

text \<open>
  \<^verbatim>\<open>Unsubscribe\<close> built from the subscription id \<^verbatim>\<open>"7"\<close> is \<^verbatim>\<open>{msg: "unsub", id: "7"}\<close>;
  the call hands the message to \<^verbatim>\<open>call_method\<close> with no correlation id and returns
  nothing of the response.
\<close>

theorem Unsubscribe_call_sends:
  "Unsubscribe_get_request_msg ''7'' = JDict [(''msg'', JStr ''unsub''), (''id'', JStr ''7'')]
   \<and> Unsubscribe_call d subscription_id p =
     (case call_method d (JDict [(''msg'', JStr ''unsub''), (''id'', JStr subscription_id)]) None (world p) of
        (Inl e, w') \<Rightarrow> (Inl e, p\<lparr>world := w'\<rparr>)
      | (Inr response, w') \<Rightarrow> (Inr (), p\<lparr>world := w'\<rparr>))"
  by (simp add: Unsubscribe_call_def Unsubscribe_get_request_msg_def await_call_method_def
      split: prod.splits sum.splits)

text \<open>
  \<^verbatim>\<open>SendReaction\<close> allocates an id, puts it in the message, whose params are
  \<^verbatim>\<open>[emoji, orig_msg_id]\<close> in this order, and calls \<^verbatim>\<open>call_method\<close> with no correlation
  id: it does not wait for a reply.
\<close>

theorem SendReaction_call_sends:
  "SendReaction_call d orig_msg_id emoji p =
     (case call_method d
             (JDict [(''msg'', JStr ''method''), (''method'', JStr ''setReaction''),
                     (''id'', JStr (str_int (max_id p + 1))),
                     (''params'', JList [emoji, orig_msg_id])])
             None (world p) of
        (Inl e, w') \<Rightarrow> (Inl e, \<lparr>max_id = max_id p + 1, world = w'\<rparr>)
      | (Inr response, w') \<Rightarrow> (Inr (), \<lparr>max_id = max_id p + 1, world = w'\<rparr>))"
  by (cases p) (simp add: SendReaction_call_def SendReaction_get_request_msg_def await_call_method_def
      get_new_id_def Let_def split: prod.splits sum.splits)

text \<open>
  The two subscriptions allocate an id, register their adapter under it with the
  \<^verbatim>\<open>sub\<close> message of the stream, and return the id.
\<close>

theorem Subscribe_calls_register:
  "SubscribeToChannelMessages_call d channel_id callback4 p =
     (case create_subscription d
             (JDict [(''msg'', JStr ''sub''), (''id'', JStr (str_int (max_id p + 1))),
                     (''name'', JStr ''stream-room-messages''),
                     (''params'', JList [channel_id, JDict [(''useCollection'', JBool False), (''args'', JList [])]])])
             (str_int (max_id p + 1)) (SubscribeToChannelMessages_wrap callback4) (world p) of
        (Inl e, w') \<Rightarrow> (Inl e, \<lparr>max_id = max_id p + 1, world = w'\<rparr>)
      | (Inr u, w') \<Rightarrow> (Inr (str_int (max_id p + 1)), \<lparr>max_id = max_id p + 1, world = w'\<rparr>))
   \<and> SubscribeToChannelChanges_call d user_id callback2 p =
     (case create_subscription d
             (JDict [(''msg'', JStr ''sub''), (''id'', JStr (str_int (max_id p + 1))),
                     (''name'', JStr ''stream-notify-user''),
                     (''params'', JList [JStr (user_id @ ''/rooms-changed''), JBool False])])
             (str_int (max_id p + 1)) (SubscribeToChannelChanges_wrap callback2) (world p) of
        (Inl e, w') \<Rightarrow> (Inl e, \<lparr>max_id = max_id p + 1, world = w'\<rparr>)
      | (Inr u, w') \<Rightarrow> (Inr (str_int (max_id p + 1)), \<lparr>max_id = max_id p + 1, world = w'\<rparr>))"
  by (cases p) (simp add: SubscribeToChannelMessages_call_def SubscribeToChannelChanges_call_def
      SubscribeToChannelMessages_get_request_msg_def SubscribeToChannelChanges_get_request_msg_def
      await_create_subscription_def get_new_id_def Let_def split: prod.splits sum.splits)

end
